theory Spec2Isabelle
  imports Complex_Main "HOL-Library.Sublist"
begin

section \<open>The Ollama translation client (ollama\_translate.py)\<close>

subsection \<open>Strings\<close>

text \<open>
  A Python \<open>str\<close> is a sequence of Unicode code points. The literals of the source that
  are not ASCII are written as their code points, with the literal in the comment
  translated; ASCII literals are written through \<open>ascii\<close>.
\<close>

type_synonym pystr = "nat list"

definition ascii :: "string \<Rightarrow> pystr" where
  "ascii s = map of_char s"

text \<open>Line 77: the content of the system message that \<open>__get_session\<close> puts into a new
  session ("You are a professional translation expert, please translate accurately and
  fluently between Chinese and English.").\<close>

definition SESSION_SYSTEM_PROMPT :: pystr where
  "SESSION_SYSTEM_PROMPT =
    [0x4F60, 0x662F, 0x4E00, 0x4E2A, 0x4E13, 0x4E1A, 0x7684, 0x7FFB, 0x8BD1, 0x4E13, 0x5BB6,
     0xFF0C, 0x8BF7, 0x51C6, 0x786E, 0x6D41, 0x7545, 0x5730, 0x8FDB, 0x884C, 0x4E2D, 0x82F1,
     0x4E92, 0x8BD1, 0x3002]"

text \<open>Lines 118-122: the f-string \<open>system_prompt\<close>, before and after \<open>{target_lang}\<close>
  ("You are a professional translation expert, follow these rules strictly: 1. translate
  the text precisely into <target_lang>, keeping the meaning; 2. use natural colloquial
  phrasing; 3. keep terminology and style consistent with the context; 4. output only the
  translation, add no explanation").\<close>

definition SYSTEM_PROMPT_HEAD :: pystr where
  "SYSTEM_PROMPT_HEAD =
    [0x4F60, 0x662F, 0x4E00, 0x4F4D, 0x4E13, 0x4E1A, 0x7684, 0x7FFB, 0x8BD1, 0x4E13, 0x5BB6,
     0xFF0C, 0x8BF7, 0x4E25, 0x683C, 0x9075, 0x5FAA, 0x4EE5, 0x4E0B, 0x89C4, 0x5219, 0xFF1A,
     10, 49, 46, 32, 0x5C06, 0x6587, 0x672C, 0x7CBE, 0x51C6, 0x7FFB, 0x8BD1, 0x4E3A]"

definition SYSTEM_PROMPT_TAIL :: pystr where
  "SYSTEM_PROMPT_TAIL =
    [0xFF0C, 0x4FDD, 0x6301, 0x539F, 0x6587, 0x672C, 0x610F, 10, 50, 46, 32, 0x4F7F, 0x7528,
     0x81EA, 0x7136, 0x7684, 0x53E3, 0x8BED, 0x5316, 0x8868, 0x8FBE, 0xFF0C, 0x7B26, 0x5408,
     0x76EE, 0x6807, 0x8BED, 0x8A00, 0x7684, 0x9605, 0x8BFB, 0x4E60, 0x60EF, 10, 51, 46, 32,
     0x7ED3, 0x5408, 0x4E0A, 0x4E0B, 0x6587, 0x8BED, 0x5883, 0xFF0C, 0x4FDD, 0x6301, 0x672F,
     0x8BED, 0x548C, 0x98CE, 0x683C, 0x7684, 0x4E00, 0x81F4, 0x6027, 10, 52, 46, 32, 0x53EA,
     0x8F93, 0x51FA, 0x8BD1, 0x6587, 0xFF0C, 0x4E0D, 0x8981, 0x6DFB, 0x52A0, 0x4EFB, 0x4F55,
     0x89E3, 0x91CA, 0x3001, 0x8BF4, 0x660E, 0x6216, 0x989D, 0x5916, 0x5185, 0x5BB9]"

text \<open>Line 125: the text before \<open>\n{text}\<close> ("Text to translate:").\<close>

definition TEXT_LABEL :: pystr where
  "TEXT_LABEL = [0x9700, 0x8981, 0x7FFB, 0x8BD1, 0x7684, 0x6587, 0x672C, 0xFF1A]"

text \<open>Line 127: the text before \<open>\n{context}\<close> ("Translation context:").\<close>

definition CONTEXT_LABEL :: pystr where
  "CONTEXT_LABEL = [0x7FFB, 0x8BD1, 0x4E0A, 0x4E0B, 0x6587, 0xFF1A]"

text \<open>Line 156 ("API response format abnormal").\<close>

definition FORMAT_ERROR :: pystr where
  "FORMAT_ERROR = [65, 80, 73, 0x54CD, 0x5E94, 0x683C, 0x5F0F, 0x5F02, 0x5E38]"

text \<open>Line 159, before \<open>{str(e)}\<close> ("Error during translation: ").\<close>

definition TRANSLATE_ERROR :: pystr where
  "TRANSLATE_ERROR = [0x7FFB, 0x8BD1, 0x8FC7, 0x7A0B, 0x4E2D, 0x51FA, 0x9519, 58, 32]"

text \<open>Line 64, before \<open>{str(e)}\<close> ("Request to the Ollama API failed: ").\<close>

definition REQUEST_ERROR :: pystr where
  "REQUEST_ERROR =
    [0x8BF7, 0x6C42, 79, 108, 108, 97, 109, 97, 32, 65, 80, 73, 0x5931, 0x8D25, 58, 32]"

text \<open>Line 179, before \<open>{str(e)}\<close> ("Fetching the model list failed: ").\<close>

definition LIST_ERROR :: pystr where
  "LIST_ERROR = [0x83B7, 0x53D6, 0x6A21, 0x578B, 0x5217, 0x8868, 0x5931, 0x8D25, 58, 32]"

text \<open>\<open>str.isspace\<close> of one code point, and \<open>str.strip()\<close> without argument: the white
  space of CPython's Unicode database, removed at both ends.\<close>

definition py_isspace :: "nat \<Rightarrow> bool" where
  "py_isspace c \<longleftrightarrow>
     (0x09 \<le> c \<and> c \<le> 0x0D) \<or> (0x1C \<le> c \<and> c \<le> 0x20) \<or> c = 0x85 \<or> c = 0xA0 \<or>
     c = 0x1680 \<or> (0x2000 \<le> c \<and> c \<le> 0x200A) \<or> c = 0x2028 \<or> c = 0x2029 \<or>
     c = 0x202F \<or> c = 0x205F \<or> c = 0x3000"

definition py_strip :: "pystr \<Rightarrow> pystr" where
  "py_strip s = rev (dropWhile py_isspace (rev (dropWhile py_isspace s)))"

text \<open>Truth value of an optional string argument (\<open>if context:\<close>, \<open>if session_id\<close>):
  \<open>None\<close> and the empty string are false.\<close>

fun truthy :: "pystr option \<Rightarrow> bool" where
  "truthy None = False"
| "truthy (Some s) = (s \<noteq> [])"

subsection \<open>Values, exceptions\<close>

text \<open>
  What \<open>response.json()\<close> returns, and what a caller passes as keyword arguments: a
  dict is an association list (its keys are distinct in Python), a number stands for
  itself (the client does no arithmetic).
\<close>

datatype json =
    JNull
  | JBool bool
  | JNum real
  | JStr pystr
  | JArr "json list"
  | JObj "(pystr \<times> json) list"

text \<open>
  The exceptions that can reach the two \<open>except\<close> clauses. \<open>RequestException\<close>,
  \<open>JSONDecodeError\<close> and \<open>Exception\<close> carry their text; \<open>HTTPError\<close> (raised by
  \<open>raise_for_status\<close>, a \<open>RequestException\<close>) carries the status, the others the operand
  they were raised for. The text \<open>str(e)\<close> of those is worded by the Python runtime and
  the requests library: it is the parameter \<open>wording\<close> of the functions below.
\<close>

datatype exn =
    RequestException pystr
  | HTTPError nat
  | JSONDecodeError pystr
  | TypeError_argument pystr
  | TypeError_in json
  | TypeError_subscript json
  | TypeError_iter json
  | AttributeError json pystr
  | KeyError pystr
  | Exception pystr

fun is_RequestException :: "exn \<Rightarrow> bool" where
  "is_RequestException (RequestException m) = True"
| "is_RequestException (HTTPError n) = True"
| "is_RequestException e = False"

fun str_exn :: "(exn \<Rightarrow> pystr) \<Rightarrow> exn \<Rightarrow> pystr" where
  "str_exn wording (RequestException m) = m"
| "str_exn wording (JSONDecodeError m) = m"
| "str_exn wording (Exception m) = m"
| "str_exn wording e = wording e"

text \<open>\<open>k in v\<close>, \<open>v[k]\<close>, \<open>v.strip()\<close>, \<open>v.get(k, d)\<close> and \<open>for x in v\<close> on a decoded value,
  for a string \<open>k\<close>.\<close>

fun py_in :: "pystr \<Rightarrow> json \<Rightarrow> exn + bool" where
  "py_in k (JObj kvs) = Inr (k \<in> fst ` set kvs)"
| "py_in k (JArr xs) = Inr (JStr k \<in> set xs)"
| "py_in k (JStr s) = Inr (sublist k s)"
| "py_in k v = Inl (TypeError_in v)"

fun py_getitem :: "json \<Rightarrow> pystr \<Rightarrow> exn + json" where
  "py_getitem (JObj kvs) k = (case map_of kvs k of Some v \<Rightarrow> Inr v | None \<Rightarrow> Inl (KeyError k))"
| "py_getitem v k = Inl (TypeError_subscript v)"

fun py_strip_method :: "json \<Rightarrow> exn + pystr" where
  "py_strip_method (JStr s) = Inr (py_strip s)"
| "py_strip_method v = Inl (AttributeError v (ascii ''strip''))"

fun py_get_method :: "json \<Rightarrow> pystr \<Rightarrow> json \<Rightarrow> exn + json" where
  "py_get_method (JObj kvs) k d = Inr (case map_of kvs k of Some v \<Rightarrow> v | None \<Rightarrow> d)"
| "py_get_method v k d = Inl (AttributeError v (ascii ''get''))"

fun py_iter :: "json \<Rightarrow> exn + json list" where
  "py_iter (JArr xs) = Inr xs"
| "py_iter (JObj kvs) = Inr (map (\<lambda>kv. JStr (fst kv)) kvs)"
| "py_iter (JStr s) = Inr (map (\<lambda>c. JStr [c]) s)"
| "py_iter v = Inl (TypeError_iter v)"

subsection \<open>Messages, list objects and the session cache\<close>

text \<open>
  A message is the dict \<open>{"role": ..., "content": ...}\<close>. Python lists are objects: the
  list that \<open>session_cache\<close> holds for a session and the list \<open>messages\<close> of a call can be
  the same object, and \<open>append\<close> changes it in place. So the lists live in a store, at
  addresses, and the cache maps a session identifier to the address of its list.
\<close>

record message =
  role :: pystr
  content :: pystr

type_synonym addr = nat

record store =
  lists :: "addr \<Rightarrow> message list"
  fresh :: addr

type_synonym cache = "pystr \<rightharpoonup> addr"

text \<open>The expression \<open>[]\<close>: a new, empty list object.\<close>

definition new_list :: "store \<Rightarrow> addr \<times> store" where
  "new_list st = (fresh st, st\<lparr>lists := (lists st)(fresh st := []), fresh := Suc (fresh st)\<rparr>)"

text \<open>\<open>lst.append(m)\<close>.\<close>

definition append_msg :: "addr \<Rightarrow> message \<Rightarrow> store \<Rightarrow> store" where
  "append_msg a m st = st\<lparr>lists := (lists st)(a := lists st a @ [m])\<rparr>"

text \<open>\<open>session_cache.get(session_id, d)\<close>.\<close>

definition cache_get :: "cache \<Rightarrow> pystr \<Rightarrow> addr \<Rightarrow> addr" where
  "cache_get session_cache session_id d = (case session_cache session_id of Some a \<Rightarrow> a | None \<Rightarrow> d)"

text \<open>Lines 66-86.\<close>

definition get_session :: "pystr \<Rightarrow> pystr \<Rightarrow> cache \<Rightarrow> store \<Rightarrow> addr \<times> store" where
  "get_session session_id msg session_cache st =
     (let (d, st) = new_list st;
          session = cache_get session_cache session_id d;
          st = (if lists st session = []
                then append_msg session \<lparr>role = ascii ''system'', content = SESSION_SYSTEM_PROMPT\<rparr> st
                else st);
          st = append_msg session \<lparr>role = ascii ''user'', content = msg\<rparr> st
      in (session, st))"

text \<open>Lines 88-98.\<close>

definition save_session :: "pystr \<Rightarrow> pystr \<Rightarrow> cache \<Rightarrow> store \<Rightarrow> cache \<times> store" where
  "save_session session_id assistant_message session_cache st =
     (let (d, st) = new_list st;
          session = cache_get session_cache session_id d;
          st = append_msg session \<lparr>role = ascii ''assistant'', content = assistant_message\<rparr> st
      in (session_cache(session_id \<mapsto> session), st))"

text \<open>Lines 161-166: \<open>clear_session\<close> changes the dict only, and returns nothing.\<close>

definition clear_session :: "pystr \<Rightarrow> cache \<Rightarrow> cache" where
  "clear_session session_id session_cache =
     (if session_id \<in> dom session_cache then session_cache(session_id := None) else session_cache)"

text \<open>What a session cache (or \<open>None\<close>) stores for a session: the content of the list
  object that the dict refers to under that key.\<close>

definition stored :: "cache option \<Rightarrow> store \<Rightarrow> pystr \<Rightarrow> message list option" where
  "stored session_cache st session_id =
     (case session_cache of
        None \<Rightarrow> None
      | Some c \<Rightarrow> map_option (lists st) (c session_id))"

text \<open>Every list object that the cache refers to has been created.\<close>

definition allocated :: "cache \<Rightarrow> store \<Rightarrow> bool" where
  "allocated session_cache st \<longleftrightarrow> (\<forall>k a. session_cache k = Some a \<longrightarrow> a < fresh st)"

subsection \<open>Configuration, requests and responses\<close>

text \<open>The fields \<open>_base_url\<close>, \<open>_model\<close> and \<open>_timeout\<close> of a client (lines 10-12).\<close>

record config =
  base_url :: pystr
  model :: pystr
  timeout :: int

text \<open>The JSON body built at lines 41-52, and the call \<open>requests.post\<close> of lines 55-60.\<close>

record payload =
  pl_model :: pystr
  pl_messages :: "message list"
  pl_stream :: json
  pl_options :: "pystr \<rightharpoonup> json"

record post_request =
  post_url :: pystr
  post_json :: payload
  post_timeout :: int
  post_headers :: "(pystr \<times> pystr) list"

record get_request =
  get_url :: pystr
  get_timeout :: int

text \<open>
  A response of the requests library, as far as the client reads it: the status, and
  what \<open>response.json()\<close> does (it raises when the body is not JSON).
  \<open>raise_for_status\<close> is the library's: it raises \<open>HTTPError\<close> for the statuses 400 to 599
  and returns for every other one.
\<close>

record response =
  status_code :: nat
  json_body :: "exn + json"

definition raise_for_status :: "response \<Rightarrow> exn option" where
  "raise_for_status r =
     (if 400 \<le> status_code r \<and> status_code r < 600 then Some (HTTPError (status_code r)) else None)"

text \<open>Lines 45-48: the options before the caller's are merged in.\<close>

definition default_options :: "pystr \<rightharpoonup> json" where
  "default_options = [ascii ''temperature'' \<mapsto> JNum 0.1, ascii ''top_p'' \<mapsto> JNum 0.9]"

text \<open>
  Lines 29-64, \<open>__send_request(self, messages, stream, **kwargs)\<close>. The argument
  \<open>messages\<close> is the content of the list object at the time of the call. The result is
  the request given to \<open>requests.post\<close>, and the response returned or the exception raised.
\<close>

definition send_request ::
  "config \<Rightarrow> (exn \<Rightarrow> pystr) \<Rightarrow> (post_request \<Rightarrow> exn + response) \<Rightarrow>
   message list \<Rightarrow> json \<Rightarrow> (pystr \<rightharpoonup> json) \<Rightarrow> post_request \<times> (exn + response)" where
  "send_request self wording post messages stream kwargs =
     (let url = base_url self @ ascii ''/api/chat'';
          pl = \<lparr>pl_model = model self, pl_messages = messages, pl_stream = stream,
                pl_options = default_options ++ kwargs\<rparr>;
          req = \<lparr>post_url = url, post_json = pl, post_timeout = timeout self,
                 post_headers = [(ascii ''Content-Type'', ascii ''application/json'')]\<rparr>
      in (req,
          case post req of
            Inl e \<Rightarrow>
              (if is_RequestException e
               then Inl (Exception (REQUEST_ERROR @ str_exn wording e))
               else Inl e)
          | Inr response \<Rightarrow>
              (case raise_for_status response of
                 Some e \<Rightarrow> Inl (Exception (REQUEST_ERROR @ str_exn wording e))
               | None \<Rightarrow> Inr response)))"

text \<open>
  Line 143, the call \<open>self.__send_request(messages, **kwargs)\<close>: Python binds the keyword
  \<open>stream\<close> to the parameter of that name (default \<open>False\<close>), refuses a keyword that names a
  parameter already given (\<open>self\<close>, \<open>messages\<close>) with a \<open>TypeError\<close>, and collects the other
  keywords.
\<close>

definition bind_send_request :: "(pystr \<rightharpoonup> json) \<Rightarrow> exn + json \<times> (pystr \<rightharpoonup> json)" where
  "bind_send_request kwargs =
     (if ascii ''self'' \<in> dom kwargs then Inl (TypeError_argument (ascii ''self''))
      else if ascii ''messages'' \<in> dom kwargs then Inl (TypeError_argument (ascii ''messages''))
      else Inr (case kwargs (ascii ''stream'') of Some v \<Rightarrow> v | None \<Rightarrow> JBool False,
                kwargs |` (- {ascii ''stream''})))"

subsection \<open>translate\_text\<close>

text \<open>Lines 118-122 and 125-127.\<close>

definition system_prompt :: "pystr \<Rightarrow> pystr" where
  "system_prompt target_lang = SYSTEM_PROMPT_HEAD @ target_lang @ SYSTEM_PROMPT_TAIL"

definition user_message :: "pystr \<Rightarrow> pystr option \<Rightarrow> pystr" where
  "user_message text context =
     (let user_message = TEXT_LABEL @ [10] @ text
      in case context of
           None \<Rightarrow> user_message
         | Some c \<Rightarrow>
             (if truthy context then CONTEXT_LABEL @ [10] @ c @ [10, 10] @ user_message
              else user_message))"

text \<open>Lines 136 and 151, \<open>session_id and session_cache is not None\<close>: the session and
  its cache when the condition holds.\<close>

definition session_enabled :: "pystr option \<Rightarrow> cache option \<Rightarrow> (pystr \<times> cache) option" where
  "session_enabled session_id session_cache =
     (case session_id of
        None \<Rightarrow> None
      | Some sid \<Rightarrow>
          (if truthy session_id
           then (case session_cache of None \<Rightarrow> None | Some c \<Rightarrow> Some (sid, c))
           else None))"

text \<open>
  Lines 129-139: the list \<open>messages\<close> of the call. The list built at lines 130-133 is
  dropped when the session branch replaces it by the session's list.
\<close>

definition prepare_messages ::
  "pystr \<Rightarrow> pystr \<Rightarrow> pystr option \<Rightarrow> pystr option \<Rightarrow> cache option \<Rightarrow> store \<Rightarrow> addr \<times> store" where
  "prepare_messages text target_lang context session_id session_cache st =
     (let (messages, st) = new_list st;
          st = append_msg messages \<lparr>role = ascii ''system'', content = system_prompt target_lang\<rparr> st
      in case session_enabled session_id session_cache of
           Some (sid, c) \<Rightarrow> get_session sid (user_message text context) c st
         | None \<Rightarrow>
             (messages,
              append_msg messages \<lparr>role = ascii ''user'', content = user_message text context\<rparr> st))"

text \<open>Line 143: the call, with the requests given to \<open>requests.post\<close>.\<close>

definition call_send_request ::
  "config \<Rightarrow> (exn \<Rightarrow> pystr) \<Rightarrow> (post_request \<Rightarrow> exn + response) \<Rightarrow>
   message list \<Rightarrow> (pystr \<rightharpoonup> json) \<Rightarrow> post_request list \<times> (exn + response)" where
  "call_send_request self wording post messages kwargs =
     (case bind_send_request kwargs of
        Inl e \<Rightarrow> ([], Inl e)
      | Inr (stream, kw) \<Rightarrow>
          (let (req, r) = send_request self wording post messages stream kw in ([req], r)))"

text \<open>Line 147, \<open>'message' in response_data and 'content' in response_data['message']\<close>,
  and line 148, \<open>response_data['message']['content'].strip()\<close>.\<close>

definition has_message_content :: "json \<Rightarrow> exn + bool" where
  "has_message_content response_data =
     (case py_in (ascii ''message'') response_data of
        Inl e \<Rightarrow> Inl e
      | Inr False \<Rightarrow> Inr False
      | Inr True \<Rightarrow>
          (case py_getitem response_data (ascii ''message'') of
             Inl e \<Rightarrow> Inl e
           | Inr m \<Rightarrow> py_in (ascii ''content'') m))"

definition message_content_stripped :: "json \<Rightarrow> exn + pystr" where
  "message_content_stripped response_data =
     (case py_getitem response_data (ascii ''message'') of
        Inl e \<Rightarrow> Inl e
      | Inr m \<Rightarrow>
          (case py_getitem m (ascii ''content'') of
             Inl e \<Rightarrow> Inl e
           | Inr c \<Rightarrow> py_strip_method c))"

text \<open>Lines 144-148 and 155-156: the translated text read from a response; \<open>None\<close> is
  the \<open>else\<close> branch of line 155.\<close>

definition read_translation :: "response \<Rightarrow> exn + pystr option" where
  "read_translation response =
     (case json_body response of
        Inl e \<Rightarrow> Inl e
      | Inr response_data \<Rightarrow>
          (case has_message_content response_data of
             Inl e \<Rightarrow> Inl e
           | Inr False \<Rightarrow> Inr None
           | Inr True \<Rightarrow>
               (case message_content_stripped response_data of
                  Inl e \<Rightarrow> Inl e
                | Inr translated_text \<Rightarrow> Inr (Some translated_text))))"

text \<open>
  What a call of \<open>translate_text\<close> leaves behind: the pair it returns, the requests it
  gave to \<open>requests.post\<close>, the session cache (the dict is changed in place) and the store.
\<close>

record translation =
  returned :: "bool \<times> pystr"
  posted :: "post_request list"
  cache_after :: "cache option"
  store_after :: store

text \<open>Lines 100-159. \<open>post\<close> is the remote endpoint seen through \<open>requests.post\<close>.\<close>

definition translate_text ::
  "config \<Rightarrow> (exn \<Rightarrow> pystr) \<Rightarrow> (post_request \<Rightarrow> exn + response) \<Rightarrow>
   pystr \<Rightarrow> pystr \<Rightarrow> pystr option \<Rightarrow> pystr option \<Rightarrow> cache option \<Rightarrow> (pystr \<rightharpoonup> json) \<Rightarrow>
   store \<Rightarrow> translation" where
  "translate_text self wording post text target_lang context session_id session_cache kwargs st =
     (let (messages, st) = prepare_messages text target_lang context session_id session_cache st;
          (reqs, sent) = call_send_request self wording post (lists st messages) kwargs
      in case (case sent of Inl e \<Rightarrow> Inl e | Inr response \<Rightarrow> read_translation response) of
           Inl e \<Rightarrow>
             \<lparr>returned = (False, TRANSLATE_ERROR @ str_exn wording e), posted = reqs,
              cache_after = session_cache, store_after = st\<rparr>
         | Inr None \<Rightarrow>
             \<lparr>returned = (False, FORMAT_ERROR), posted = reqs,
              cache_after = session_cache, store_after = st\<rparr>
         | Inr (Some translated_text) \<Rightarrow>
             (case session_enabled session_id session_cache of
                Some (sid, c) \<Rightarrow>
                  (let (c, st) = save_session sid translated_text c st
                   in \<lparr>returned = (True, translated_text), posted = reqs,
                       cache_after = Some c, store_after = st\<rparr>)
              | None \<Rightarrow>
                  \<lparr>returned = (True, translated_text), posted = reqs,
                   cache_after = session_cache, store_after = st\<rparr>))"

subsection \<open>list\_models\<close>

text \<open>Line 176, the comprehension \<open>[model['name'] for model in ...]\<close> over the elements.\<close>

fun model_names :: "json list \<Rightarrow> exn + json list" where
  "model_names [] = Inr []"
| "model_names (m # ms) =
     (case py_getitem m (ascii ''name'') of
        Inl e \<Rightarrow> Inl e
      | Inr n \<Rightarrow> (case model_names ms of Inl e \<Rightarrow> Inl e | Inr ns \<Rightarrow> Inr (n # ns)))"

text \<open>Lines 168-179. \<open>get\<close> is the remote endpoint seen through \<open>requests.get\<close>. The list
  returned holds the names on success and one string, the message, on failure.\<close>

definition list_models ::
  "config \<Rightarrow> (exn \<Rightarrow> pystr) \<Rightarrow> (get_request \<Rightarrow> exn + response) \<Rightarrow> bool \<times> json list" where
  "list_models self wording get =
     (let failed = (\<lambda>e. (False, [JStr (LIST_ERROR @ str_exn wording e)]))
      in case get \<lparr>get_url = base_url self @ ascii ''/api/tags'', get_timeout = 10\<rparr> of
           Inl e \<Rightarrow> failed e
         | Inr response \<Rightarrow>
             (case raise_for_status response of
                Some e \<Rightarrow> failed e
              | None \<Rightarrow>
                  (case json_body response of
                     Inl e \<Rightarrow> failed e
                   | Inr models_data \<Rightarrow>
                       (case py_get_method models_data (ascii ''models'') (JArr []) of
                          Inl e \<Rightarrow> failed e
                        | Inr ms \<Rightarrow>
                            (case py_iter ms of
                               Inl e \<Rightarrow> failed e
                             | Inr elems \<Rightarrow>
                                 (case model_names elems of
                                    Inl e \<Rightarrow> failed e
                                  | Inr models \<Rightarrow> (True, models)))))))"

subsection \<open>A client, endpoints and a store to run the calls on\<close>

text \<open>The client with the defaults of lines 10-12.\<close>

definition default_client :: config where
  "default_client =
     \<lparr>base_url = ascii ''http://127.0.0.1:11434'',
      model = ascii ''huihui_ai/hunyuan-mt-abliterated:latest'',
      timeout = 300\<rparr>"

text \<open>An endpoint that answers every request with the given status and body, the body
  \<open>{"message": {"content": c}}\<close>, a wording of the runtime's exception texts, and the
  store before any list exists.\<close>

definition endpoint :: "nat \<Rightarrow> exn + json \<Rightarrow> 'q \<Rightarrow> exn + response" where
  "endpoint status body q = Inr \<lparr>status_code = status, json_body = body\<rparr>"

definition chat_body :: "pystr \<Rightarrow> json" where
  "chat_body c = JObj [(ascii ''message'', JObj [(ascii ''content'', JStr c)])]"

definition terse :: "exn \<Rightarrow> pystr" where
  "terse e = ascii ''error''"

definition empty_store :: store where
  "empty_store = \<lparr>lists = (\<lambda>a. []), fresh = 0\<rparr>"

text \<open>A store with one list, at address 0, holding the assistant message that an earlier
  call has saved.\<close>

definition one_reply_store :: store where
  "one_reply_store =
     \<lparr>lists = (\<lambda>a. if a = 0 then [\<lparr>role = ascii ''assistant'', content = ascii ''Hallo''\<rparr>] else []),
      fresh = 1\<rparr>"

section \<open>Properties\<close>

subsection \<open>The phases of a call\<close>

lemma session_enabled_Some:
  "session_enabled session_id session_cache = Some (sid, c) \<longleftrightarrow>
     session_id = Some sid \<and> sid \<noteq> [] \<and> session_cache = Some c"
  by (auto simp: session_enabled_def split: option.splits)

lemma session_enabled_empty_id [simp]: "session_enabled (Some []) session_cache = None"
  by (simp add: session_enabled_def)

lemma session_enabled_no_cache [simp]: "session_enabled session_id None = None"
  by (simp add: session_enabled_def split: option.splits)

lemma session_enabled_no_id [simp]: "session_enabled None session_cache = None"
  by (simp add: session_enabled_def)

lemma session_enabled_on [simp]:
  "sid \<noteq> [] \<Longrightarrow> session_enabled (Some sid) (Some c) = Some (sid, c)"
  by (simp add: session_enabled_def)

lemma prepare_messages_plain:
  assumes "session_enabled session_id session_cache = None"
  shows "prepare_messages text target_lang context session_id session_cache st =
           (fresh st,
            st\<lparr>lists := (lists st)(fresh st :=
                  [\<lparr>role = ascii ''system'', content = system_prompt target_lang\<rparr>,
                   \<lparr>role = ascii ''user'', content = user_message text context\<rparr>]),
               fresh := Suc (fresh st)\<rparr>)"
  using assms by (simp add: prepare_messages_def new_list_def append_msg_def)

lemma prepare_messages_new_session:
  assumes "session_enabled session_id session_cache = Some (sid, c)" and "c sid = None"
  shows "prepare_messages text target_lang context session_id session_cache st =
           (Suc (fresh st),
            st\<lparr>lists := (lists st)
                  (fresh st := [\<lparr>role = ascii ''system'', content = system_prompt target_lang\<rparr>],
                   Suc (fresh st) :=
                     [\<lparr>role = ascii ''system'', content = SESSION_SYSTEM_PROMPT\<rparr>,
                      \<lparr>role = ascii ''user'', content = user_message text context\<rparr>]),
               fresh := Suc (Suc (fresh st))\<rparr>)"
  using assms
  by (simp add: prepare_messages_def get_session_def cache_get_def new_list_def append_msg_def)

lemma prepare_messages_old_session:
  assumes "session_enabled session_id session_cache = Some (sid, c)" and "c sid = Some a"
    and "a < fresh st"
  shows "prepare_messages text target_lang context session_id session_cache st =
           (a,
            st\<lparr>lists := (lists st)
                  (fresh st := [\<lparr>role = ascii ''system'', content = system_prompt target_lang\<rparr>],
                   Suc (fresh st) := [],
                   a := lists st a @
                        (if lists st a = [] then [\<lparr>role = ascii ''system'', content = SESSION_SYSTEM_PROMPT\<rparr>] else []) @
                        [\<lparr>role = ascii ''user'', content = user_message text context\<rparr>]),
               fresh := Suc (Suc (fresh st))\<rparr>)"
  using assms
  by (simp add: prepare_messages_def get_session_def cache_get_def new_list_def append_msg_def)

lemma save_session_new:
  assumes "c sid = None"
  shows "save_session sid t c st =
           (c(sid \<mapsto> fresh st),
            st\<lparr>lists := (lists st)(fresh st := [\<lparr>role = ascii ''assistant'', content = t\<rparr>]),
               fresh := Suc (fresh st)\<rparr>)"
  using assms by (simp add: save_session_def cache_get_def new_list_def append_msg_def)

lemma save_session_old:
  assumes "c sid = Some a" and "a < fresh st"
  shows "save_session sid t c st =
           (c(sid \<mapsto> a),
            st\<lparr>lists := (lists st)(fresh st := [],
                    a := lists st a @ [\<lparr>role = ascii ''assistant'', content = t\<rparr>]),
               fresh := Suc (fresh st)\<rparr>)"
  using assms by (simp add: save_session_def cache_get_def new_list_def append_msg_def)

lemma posted_call_send_request:
  "fst (call_send_request self wording post messages kwargs) =
     (if ascii ''self'' \<in> dom kwargs \<or> ascii ''messages'' \<in> dom kwargs then []
      else [\<lparr>post_url = base_url self @ ascii ''/api/chat'',
             post_json = \<lparr>pl_model = model self, pl_messages = messages,
                          pl_stream = (case kwargs (ascii ''stream'') of Some v \<Rightarrow> v | None \<Rightarrow> JBool False),
                          pl_options = default_options ++ (kwargs |` (- {ascii ''stream''}))\<rparr>,
             post_timeout = timeout self,
             post_headers = [(ascii ''Content-Type'', ascii ''application/json'')]\<rparr>])"
  by (simp add: call_send_request_def bind_send_request_def send_request_def Let_def)

lemma posted_translate_text:
  "posted (translate_text self wording post text target_lang context session_id session_cache kwargs st) =
     fst (call_send_request self wording post
            (lists (snd (prepare_messages text target_lang context session_id session_cache st))
                   (fst (prepare_messages text target_lang context session_id session_cache st)))
            kwargs)"
  by (simp add: translate_text_def Let_def split: prod.splits sum.splits option.splits)

lemma cache_after_plain:
  "session_enabled session_id session_cache = None \<Longrightarrow>
   cache_after (translate_text self wording post text target_lang context session_id session_cache kwargs st)
     = session_cache"
  by (simp add: translate_text_def Let_def split: prod.splits sum.splits option.splits)

lemma store_after_plain:
  "session_enabled session_id session_cache = None \<Longrightarrow>
   store_after (translate_text self wording post text target_lang context session_id session_cache kwargs st)
     = snd (prepare_messages text target_lang context session_id session_cache st)"
  by (simp add: translate_text_def Let_def split: prod.splits sum.splits option.splits)

lemma last_prepared_message:
  "prepare_messages text target_lang context session_id session_cache st = (messages, st') \<Longrightarrow>
   lists st' messages \<noteq> [] \<and>
   last (lists st' messages) = \<lparr>role = ascii ''user'', content = user_message text context\<rparr>"
  by (auto simp: prepare_messages_def get_session_def new_list_def append_msg_def Let_def
      split: option.splits prod.splits if_splits)

lemma last_posted_message:
  assumes "q \<in> set (posted (translate_text self wording post text target_lang context session_id session_cache kwargs st))"
  shows "pl_messages (post_json q) \<noteq> [] \<and>
         last (pl_messages (post_json q)) = \<lparr>role = ascii ''user'', content = user_message text context\<rparr>"
proof -
  obtain messages st' where p: "prepare_messages text target_lang context session_id session_cache st = (messages, st')"
    by (cases "prepare_messages text target_lang context session_id session_cache st")
  from assms have "pl_messages (post_json q) = lists st' messages"
    by (auto simp: posted_translate_text p posted_call_send_request split: if_splits)
  with last_prepared_message [OF p] show ?thesis by simp
qed

lemma returned_translate_text:
  "returned (translate_text self wording post text target_lang context session_id session_cache kwargs st) =
     (case (case snd (call_send_request self wording post
                  (lists (snd (prepare_messages text target_lang context session_id session_cache st))
                         (fst (prepare_messages text target_lang context session_id session_cache st)))
                  kwargs) of
              Inl e \<Rightarrow> Inl e
            | Inr response \<Rightarrow> read_translation response) of
        Inl e \<Rightarrow> (False, TRANSLATE_ERROR @ str_exn wording e)
      | Inr None \<Rightarrow> (False, FORMAT_ERROR)
      | Inr (Some translated_text) \<Rightarrow> (True, translated_text))"
  by (simp add: translate_text_def Let_def split: prod.splits sum.splits option.splits)

lemma sent_call_send_request:
  assumes "ascii ''self'' \<notin> dom kwargs" and "ascii ''messages'' \<notin> dom kwargs"
  shows "snd (call_send_request self wording post messages kwargs) =
           (case post (hd (fst (call_send_request self wording post messages kwargs))) of
              Inl e \<Rightarrow>
                (if is_RequestException e
                 then Inl (Exception (REQUEST_ERROR @ str_exn wording e))
                 else Inl e)
            | Inr response \<Rightarrow>
                (case raise_for_status response of
                   Some e \<Rightarrow> Inl (Exception (REQUEST_ERROR @ str_exn wording e))
                 | None \<Rightarrow> Inr response))"
  using assms
  by (simp add: call_send_request_def bind_send_request_def send_request_def Let_def)

lemma py_in_object: "py_in k (JObj kvs) = Inr (map_of kvs k \<noteq> None)"
  by (simp add: map_of_eq_None_iff)

lemma read_translation_content:
  assumes "json_body response = Inr (JObj kvs)"
    and "map_of kvs (ascii ''message'') = Some (JObj kvs')"
    and "map_of kvs' (ascii ''content'') = Some (JStr c)"
  shows "read_translation response = Inr (Some (py_strip c))"
  using assms
  by (simp add: read_translation_def has_message_content_def message_content_stripped_def
      py_in_object del: py_in.simps)

lemma read_translation_no_message:
  assumes "json_body response = Inr (JObj kvs)" and "map_of kvs (ascii ''message'') = None"
  shows "read_translation response = Inr None"
  using assms
  by (simp add: read_translation_def has_message_content_def py_in_object del: py_in.simps)

lemma read_translation_no_content:
  assumes "json_body response = Inr (JObj kvs)"
    and "map_of kvs (ascii ''message'') = Some (JObj kvs')"
    and "map_of kvs' (ascii ''content'') = None"
  shows "read_translation response = Inr None"
  using assms
  by (simp add: read_translation_def has_message_content_def py_in_object del: py_in.simps)

lemma message_content_stripped_Inr:
  assumes "message_content_stripped d = Inr t"
  shows "\<exists>kvs kvs' c. d = JObj kvs \<and> map_of kvs (ascii ''message'') = Some (JObj kvs') \<and>
           map_of kvs' (ascii ''content'') = Some (JStr c) \<and> t = py_strip c"
proof (cases d)
  case (JObj kvs)
  show ?thesis
  proof (cases "map_of kvs (ascii ''message'')")
    case None
    with JObj assms show ?thesis by (simp add: message_content_stripped_def)
  next
    case (Some m)
    note m = Some
    show ?thesis
    proof (cases m)
      case (JObj kvs')
      note m' = JObj
      show ?thesis
      proof (cases "map_of kvs' (ascii ''content'')")
        case None
        with \<open>d = JObj kvs\<close> m m' assms show ?thesis by (simp add: message_content_stripped_def)
      next
        case (Some v)
        with \<open>d = JObj kvs\<close> m m' assms show ?thesis
          by (cases v) (simp_all add: message_content_stripped_def)
      qed
    qed (use \<open>d = JObj kvs\<close> m assms in \<open>simp_all add: message_content_stripped_def\<close>)
  qed
qed (use assms in \<open>simp_all add: message_content_stripped_def\<close>)

lemma read_translation_Some:
  assumes "read_translation response = Inr (Some t)"
  shows "\<exists>kvs kvs' c. json_body response = Inr (JObj kvs) \<and>
           map_of kvs (ascii ''message'') = Some (JObj kvs') \<and>
           map_of kvs' (ascii ''content'') = Some (JStr c) \<and> t = py_strip c"
proof -
  from assms obtain d where d: "json_body response = Inr d" and "message_content_stripped d = Inr t"
    by (auto simp: read_translation_def split: sum.splits bool.splits)
  with message_content_stripped_Inr show ?thesis by blast
qed


lemma returned_of_response:
  assumes "ascii ''self'' \<notin> dom kwargs" and "ascii ''messages'' \<notin> dom kwargs"
    and "\<forall>q. post q = Inr response"
    and "raise_for_status response = None"
  shows "returned (translate_text self wording post text target_lang context session_id session_cache kwargs st) =
     (case read_translation response of
        Inl e \<Rightarrow> (False, TRANSLATE_ERROR @ str_exn wording e)
      | Inr None \<Rightarrow> (False, FORMAT_ERROR)
      | Inr (Some translated_text) \<Rightarrow> (True, translated_text))"
  using assms
  by (simp add: returned_translate_text sent_call_send_request)

lemma model_names_named:
  "model_names (map (\<lambda>n. JObj [(ascii ''name'', n)]) ns) = Inr ns"
  by (induction ns) simp_all

lemma model_names_fields:
  assumes "list_all2 (\<lambda>m n. \<exists>fields. m = JObj fields \<and> map_of fields (ascii ''name'') = Some n) ms ns"
  shows "model_names ms = Inr ns"
  using assms by (induction ms ns rule: list_all2_induct) auto

lemma state_after_failure:
  assumes "\<not> fst (returned (translate_text self wording post text target_lang context session_id session_cache kwargs st))"
  shows "cache_after (translate_text self wording post text target_lang context session_id session_cache kwargs st)
           = session_cache"
    and "store_after (translate_text self wording post text target_lang context session_id session_cache kwargs st)
           = snd (prepare_messages text target_lang context session_id session_cache st)"
  using assms
  by (simp_all add: translate_text_def Let_def split: prod.splits sum.splits option.splits)

lemma returned_transport_failure:
  assumes "ascii ''self'' \<notin> dom kwargs" and "ascii ''messages'' \<notin> dom kwargs"
    and "(is_RequestException e \<and> (\<forall>q. post q = Inl e)) \<or>
         (\<exists>response. (\<forall>q. post q = Inr response) \<and> 400 \<le> status_code response \<and>
            status_code response < 600 \<and> e = HTTPError (status_code response))"
  shows "returned (translate_text self wording post text target_lang context session_id session_cache kwargs st) =
           (False, TRANSLATE_ERROR @ REQUEST_ERROR @ str_exn wording e)"
  using assms
  by (auto simp: returned_translate_text sent_call_send_request raise_for_status_def)

lemmas call_defs = translate_text_def prepare_messages_def call_send_request_def read_translation_def
  get_session_def save_session_def new_list_def append_msg_def cache_get_def
  bind_send_request_def send_request_def raise_for_status_def has_message_content_def
  message_content_stripped_def stored_def Let_def

lemmas run_defs = default_client_def endpoint_def chat_body_def terse_def empty_store_def
  one_reply_store_def

subsection \<open>The claims\<close>

text \<open>
  C9: for every session cache and session identifier, \<open>clear_session\<close> removes the
  identifier's entry when it is present, changes nothing when it is absent (the model has
  no error branch: it does not raise), returns only the updated cache, and leaves the
  entry of every other session as it was.
\<close>

theorem clear_session_removes_only_that_entry:
  "clear_session sid c sid = None \<and>
   (sid \<notin> dom c \<longrightarrow> clear_session sid c = c) \<and>
   (\<forall>k. k \<noteq> sid \<longrightarrow> clear_session sid c k = c k)"
  by (auto simp: clear_session_def)

theorem clear_session_removes_only_that_entry_witness:
  "clear_session (ascii ''a'') [ascii ''a'' \<mapsto> 0, ascii ''b'' \<mapsto> 1] (ascii ''a'') = None \<and>
   clear_session (ascii ''a'') [ascii ''a'' \<mapsto> 0, ascii ''b'' \<mapsto> 1] (ascii ''b'') = Some 1 \<and>
   clear_session (ascii ''a'') [ascii ''b'' \<mapsto> 1] = [ascii ''b'' \<mapsto> (1::nat)]"
  using clear_session_removes_only_that_entry [of "ascii ''a''" "[ascii ''a'' \<mapsto> 0, ascii ''b'' \<mapsto> 1]"]
        clear_session_removes_only_that_entry [of "ascii ''a''" "[ascii ''b'' \<mapsto> 1]"]
  by (simp add: ascii_def)

text \<open>
  C10: a call whose \<open>session_id\<close> is the empty string and whose \<open>session_cache\<close> is a
  dict takes the branch without session. Every request it sends carries the two messages
  [system prompt of this call, user message]; the dict is the same afterwards, no list
  that existed before the call has changed, so every entry stores what it stored; and
  one request is sent unless a keyword argument names \<open>self\<close> or \<open>messages\<close>.
\<close>

theorem translate_text_empty_session_id:
  assumes "r = translate_text self wording post text target_lang context (Some []) (Some c) kwargs st"
  shows "cache_after r = Some c \<and>
         (\<forall>a<fresh st. lists (store_after r) a = lists st a) \<and>
         (allocated c st \<longrightarrow> (\<forall>k. stored (cache_after r) (store_after r) k = stored (Some c) st k)) \<and>
         (\<forall>q\<in>set (posted r). pl_messages (post_json q) =
            [\<lparr>role = ascii ''system'', content = system_prompt target_lang\<rparr>,
             \<lparr>role = ascii ''user'', content = user_message text context\<rparr>]) \<and>
         (ascii ''self'' \<notin> dom kwargs \<and> ascii ''messages'' \<notin> dom kwargs \<longrightarrow> length (posted r) = 1)"
proof -
  have off: "session_enabled (Some []) (Some c) = None" by simp
  have c: "cache_after r = Some c" using assms cache_after_plain [OF off] by simp
  have s: "store_after r =
             st\<lparr>lists := (lists st)(fresh st :=
                  [\<lparr>role = ascii ''system'', content = system_prompt target_lang\<rparr>,
                   \<lparr>role = ascii ''user'', content = user_message text context\<rparr>]),
               fresh := Suc (fresh st)\<rparr>"
    using assms store_after_plain [OF off] prepare_messages_plain [OF off] by simp
  have p: "posted r =
             fst (call_send_request self wording post
                   [\<lparr>role = ascii ''system'', content = system_prompt target_lang\<rparr>,
                    \<lparr>role = ascii ''user'', content = user_message text context\<rparr>] kwargs)"
    using assms by (simp add: posted_translate_text prepare_messages_plain [OF off])
  have unchanged: "\<forall>a<fresh st. lists (store_after r) a = lists st a"
    by (simp add: s)
  have entries: "allocated c st \<longrightarrow> (\<forall>k. stored (cache_after r) (store_after r) k = stored (Some c) st k)"
  proof (intro impI allI)
    fix k assume "allocated c st"
    then show "stored (cache_after r) (store_after r) k = stored (Some c) st k"
      by (cases "c k") (auto simp: c s stored_def allocated_def)
  qed
  have msgs: "\<forall>q\<in>set (posted r). pl_messages (post_json q) =
            [\<lparr>role = ascii ''system'', content = system_prompt target_lang\<rparr>,
             \<lparr>role = ascii ''user'', content = user_message text context\<rparr>]"
    by (simp add: p posted_call_send_request)
  have one: "ascii ''self'' \<notin> dom kwargs \<and> ascii ''messages'' \<notin> dom kwargs \<longrightarrow> length (posted r) = 1"
    by (simp add: p posted_call_send_request)
  from c unchanged entries msgs one show ?thesis by blast
qed

theorem translate_text_empty_session_id_witness:
  "cache_after (translate_text default_client terse (endpoint 200 (Inr (chat_body (ascii ''Hallo''))))
      (ascii ''Hello'') (ascii ''de'') None (Some []) (Some [ascii ''s'' \<mapsto> 0]) Map.empty
      \<lparr>lists = (\<lambda>a. []), fresh = 1\<rparr>) = Some [ascii ''s'' \<mapsto> 0] \<and>
   length (posted (translate_text default_client terse (endpoint 200 (Inr (chat_body (ascii ''Hallo''))))
      (ascii ''Hello'') (ascii ''de'') None (Some []) (Some [ascii ''s'' \<mapsto> 0]) Map.empty
      \<lparr>lists = (\<lambda>a. []), fresh = 1\<rparr>)) = 1 \<and>
   stored (cache_after (translate_text default_client terse (endpoint 200 (Inr (chat_body (ascii ''Hallo''))))
      (ascii ''Hello'') (ascii ''de'') None (Some []) (Some [ascii ''s'' \<mapsto> 0]) Map.empty
      \<lparr>lists = (\<lambda>a. []), fresh = 1\<rparr>))
      (store_after (translate_text default_client terse (endpoint 200 (Inr (chat_body (ascii ''Hallo''))))
      (ascii ''Hello'') (ascii ''de'') None (Some []) (Some [ascii ''s'' \<mapsto> 0]) Map.empty
      \<lparr>lists = (\<lambda>a. []), fresh = 1\<rparr>)) (ascii ''s'') = Some []"
  using translate_text_empty_session_id [OF refl, of default_client terse
      "endpoint 200 (Inr (chat_body (ascii ''Hallo'')))" "ascii ''Hello''" "ascii ''de''" None
      "[ascii ''s'' \<mapsto> 0]" Map.empty "\<lparr>lists = (\<lambda>a. []), fresh = 1\<rparr>"]
  by (simp add: allocated_def stored_def)

text \<open>
  C5: in every request that \<open>translate_text\<close> sends, the options are the defaults
  \<open>temperature = 0.1\<close> and \<open>top_p = 0.9\<close> wherever the caller's keyword arguments name no
  key, and a key that the caller names carries the caller's value: the caller's options
  change the keys they name and no other. (The keyword \<open>stream\<close> is the parameter of
  \<open>__send_request\<close>, not an option.) One request is sent unless a keyword names \<open>self\<close> or
  \<open>messages\<close>.
\<close>

theorem translate_text_options:
  assumes "r = translate_text self wording post text target_lang context session_id session_cache kwargs st"
  shows "(ascii ''self'' \<notin> dom kwargs \<and> ascii ''messages'' \<notin> dom kwargs \<longrightarrow> length (posted r) = 1) \<and>
         (\<forall>q\<in>set (posted r).
            (\<forall>k. k \<notin> dom kwargs \<longrightarrow> pl_options (post_json q) k = default_options k) \<and>
            (\<forall>k v. kwargs k = Some v \<and> k \<noteq> ascii ''stream'' \<longrightarrow> pl_options (post_json q) k = Some v)) \<and>
         default_options (ascii ''temperature'') = Some (JNum 0.1) \<and>
         default_options (ascii ''top_p'') = Some (JNum 0.9) \<and>
         dom default_options = {ascii ''temperature'', ascii ''top_p''}"
proof -
  have one: "ascii ''self'' \<notin> dom kwargs \<and> ascii ''messages'' \<notin> dom kwargs \<longrightarrow> length (posted r) = 1"
    using assms by (simp add: posted_translate_text posted_call_send_request)
  have opts: "\<forall>q\<in>set (posted r).
            (\<forall>k. k \<notin> dom kwargs \<longrightarrow> pl_options (post_json q) k = default_options k) \<and>
            (\<forall>k v. kwargs k = Some v \<and> k \<noteq> ascii ''stream'' \<longrightarrow> pl_options (post_json q) k = Some v)"
    using assms
    by (auto simp: posted_translate_text posted_call_send_request map_add_def restrict_map_def
        split: if_splits option.splits)
  have d: "default_options (ascii ''temperature'') = Some (JNum 0.1)"
     "default_options (ascii ''top_p'') = Some (JNum 0.9)"
     "dom default_options = {ascii ''temperature'', ascii ''top_p''}"
    by (auto simp: default_options_def ascii_def)
  from one opts d show ?thesis by blast
qed

theorem translate_text_options_witness:
  "map (\<lambda>q. (pl_options (post_json q) (ascii ''temperature''), pl_options (post_json q) (ascii ''top_p'')))
     (posted (translate_text default_client terse (endpoint 200 (Inr (chat_body (ascii ''Hallo''))))
        (ascii ''Hello'') (ascii ''de'') None None None [ascii ''temperature'' \<mapsto> JNum 0.5] empty_store))
   = [(Some (JNum 0.5), Some (JNum 0.9))]"
proof -
  let ?r = "translate_text default_client terse (endpoint 200 (Inr (chat_body (ascii ''Hallo''))))
        (ascii ''Hello'') (ascii ''de'') None None None [ascii ''temperature'' \<mapsto> JNum 0.5] empty_store"
  note t = translate_text_options [of "?r" default_client terse
      "endpoint 200 (Inr (chat_body (ascii ''Hallo'')))" "ascii ''Hello''" "ascii ''de''" None None None
      "[ascii ''temperature'' \<mapsto> JNum 0.5]" empty_store, OF refl]
  have len: "length (posted ?r) = 1" using t by (simp add: ascii_def)
  then obtain q where q: "posted ?r = [q]" by (cases "posted ?r") auto
  have "pl_options (post_json q) (ascii ''temperature'') = Some (JNum 0.5)"
    using t q by (simp add: ascii_def)
  moreover have "pl_options (post_json q) (ascii ''top_p'') = Some (JNum 0.9)"
    using t q by (simp add: ascii_def)
  ultimately show ?thesis unfolding q by simp
qed

text \<open>
  C6, as stated, fails for a context that is given and empty: \<open>if context:\<close> is false for
  the empty string, and the user message sent starts with the label of the text, not
  with the label of the context.
\<close>

theorem user_message_empty_context_counterexample:
  "map (\<lambda>q. content (last (pl_messages (post_json q))))
     (posted (translate_text default_client terse (endpoint 200 (Inr (chat_body (ascii ''Hallo''))))
        (ascii ''Hello'') (ascii ''de'') (Some []) None None Map.empty empty_store))
     = [TEXT_LABEL @ [10] @ ascii ''Hello''] \<and>
   \<not> prefix (CONTEXT_LABEL @ [10] @ []) (TEXT_LABEL @ [10] @ ascii ''Hello'')"
  by (simp add: posted_translate_text posted_call_send_request prepare_messages_plain
      user_message_def TEXT_LABEL_def CONTEXT_LABEL_def ascii_def)

text \<open>
  C6, amended: the last message of every request sent is the user message; it starts with
  the context label, a line feed and the context when a context that is not empty is
  given, and with the text label, a line feed and the text when the context is absent or
  empty.
\<close>

theorem user_message_starts_with:
  assumes "r = translate_text self wording post source target_lang ctx session_id session_cache kwargs st"
  shows "(\<forall>q\<in>set (posted r). pl_messages (post_json q) \<noteq> [] \<and>
            last (pl_messages (post_json q)) = \<lparr>role = ascii ''user'', content = user_message source ctx\<rparr>) \<and>
         (\<forall>c. ctx = Some c \<and> c \<noteq> [] \<longrightarrow> prefix (CONTEXT_LABEL @ [10] @ c) (user_message source ctx)) \<and>
         (ctx = None \<or> ctx = Some [] \<longrightarrow> prefix (TEXT_LABEL @ [10] @ source) (user_message source ctx))"
proof -
  have sent: "\<forall>q\<in>set (posted r). pl_messages (post_json q) \<noteq> [] \<and>
            last (pl_messages (post_json q)) = \<lparr>role = ascii ''user'', content = user_message source ctx\<rparr>"
    using assms last_posted_message by blast
  have with_context: "\<forall>c. ctx = Some c \<and> c \<noteq> [] \<longrightarrow> prefix (CONTEXT_LABEL @ [10] @ c) (user_message source ctx)"
    by (simp add: user_message_def)
  have without: "ctx = None \<or> ctx = Some [] \<longrightarrow> prefix (TEXT_LABEL @ [10] @ source) (user_message source ctx)"
    by (auto simp: user_message_def)
  from sent with_context without show ?thesis by blast
qed

theorem user_message_starts_with_witness:
  "map (\<lambda>q. content (last (pl_messages (post_json q))))
     (posted (translate_text default_client terse (endpoint 200 (Inr (chat_body (ascii ''Hallo''))))
        (ascii ''Hello'') (ascii ''de'') (Some (ascii ''a greeting'')) None None Map.empty empty_store))
     = [user_message (ascii ''Hello'') (Some (ascii ''a greeting''))] \<and>
   prefix (CONTEXT_LABEL @ [10] @ ascii ''a greeting'') (user_message (ascii ''Hello'') (Some (ascii ''a greeting''))) \<and>
   prefix (TEXT_LABEL @ [10] @ ascii ''Hello'') (user_message (ascii ''Hello'') None)"
proof -
  let ?r = "translate_text default_client terse (endpoint 200 (Inr (chat_body (ascii ''Hallo''))))
        (ascii ''Hello'') (ascii ''de'') (Some (ascii ''a greeting'')) None None Map.empty empty_store"
  note t = user_message_starts_with [of "?r" default_client terse
      "endpoint 200 (Inr (chat_body (ascii ''Hallo'')))" "ascii ''Hello''" "ascii ''de''"
      "Some (ascii ''a greeting'')" None None Map.empty empty_store, OF refl]
  note n = user_message_starts_with [of _ default_client terse
      "endpoint 200 (Inr (chat_body (ascii ''Hallo'')))" "ascii ''Hello''" "ascii ''de''"
      None None None Map.empty empty_store, OF refl]
  have "length (posted ?r) = 1"
    by (simp add: posted_translate_text posted_call_send_request)
  then obtain q where q: "posted ?r = [q]" by (cases "posted ?r") auto
  have a: "content (last (pl_messages (post_json q))) = user_message (ascii ''Hello'') (Some (ascii ''a greeting''))"
    using t q by simp
  have b: "prefix (CONTEXT_LABEL @ [10] @ ascii ''a greeting'') (user_message (ascii ''Hello'') (Some (ascii ''a greeting'')))"
    using t by (simp add: ascii_def)
  have c: "prefix (TEXT_LABEL @ [10] @ ascii ''Hello'') (user_message (ascii ''Hello'') None)"
    using n by simp
  from a b c show ?thesis unfolding q by simp
qed

text \<open>
  C7, as stated, fails in both halves. The body \<open>{"message": null}\<close> has no
  \<open>message.content\<close>, and the call returns the text of the \<open>TypeError\<close> that \<open>in\<close> raises,
  wrapped at line 159, which is not the format message of line 156. The body
  \<open>{"message": {"content": null}}\<close> has a message object with a content field, and the call
  returns a failure, since \<open>None\<close> has no \<open>strip\<close>.
\<close>

theorem response_format_counterexample:
  "returned (translate_text default_client terse
      (endpoint 200 (Inr (JObj [(ascii ''message'', JNull)])))
      (ascii ''Hello'') (ascii ''de'') None None None Map.empty empty_store)
     = (False, TRANSLATE_ERROR @ ascii ''error'') \<and>
   TRANSLATE_ERROR @ ascii ''error'' \<noteq> FORMAT_ERROR \<and>
   returned (translate_text default_client terse
      (endpoint 200 (Inr (JObj [(ascii ''message'', JObj [(ascii ''content'', JNull)])])))
      (ascii ''Hello'') (ascii ''de'') None None None Map.empty empty_store)
     = (False, TRANSLATE_ERROR @ ascii ''error'')"
  by (simp add: returned_of_response endpoint_def raise_for_status_def read_translation_def
      has_message_content_def message_content_stripped_def terse_def TRANSLATE_ERROR_def
      FORMAT_ERROR_def)

text \<open>
  C7, amended. For a response that \<open>raise_for_status\<close> accepts: when the body is an
  object whose \<open>message\<close> is an object whose \<open>content\<close> is a string, the call returns
  success with the stripped content; when the body is an object without \<open>message\<close>, or
  whose \<open>message\<close> is an object without \<open>content\<close>, it returns the failure with the format
  message; for every other response it returns a failure, with the format message or
  with the wrapped text of an exception. Every case is a returned pair: nothing is raised.
\<close>

theorem translation_read_from_response:
  assumes "r = translate_text self wording post source target_lang ctx session_id session_cache kwargs st"
    and "ascii ''self'' \<notin> dom kwargs" and "ascii ''messages'' \<notin> dom kwargs"
    and "\<forall>q. post q = Inr response"
    and "status_code response < 400 \<or> 600 \<le> status_code response"
  shows "(\<forall>kvs kvs' c. json_body response = Inr (JObj kvs) \<and>
             map_of kvs (ascii ''message'') = Some (JObj kvs') \<and>
             map_of kvs' (ascii ''content'') = Some (JStr c) \<longrightarrow>
             returned r = (True, py_strip c)) \<and>
         (\<forall>kvs. json_body response = Inr (JObj kvs) \<and>
             (map_of kvs (ascii ''message'') = None \<or>
              (\<exists>kvs'. map_of kvs (ascii ''message'') = Some (JObj kvs') \<and>
                      map_of kvs' (ascii ''content'') = None)) \<longrightarrow>
             returned r = (False, FORMAT_ERROR)) \<and>
         ((\<nexists>kvs kvs' c. json_body response = Inr (JObj kvs) \<and>
             map_of kvs (ascii ''message'') = Some (JObj kvs') \<and>
             map_of kvs' (ascii ''content'') = Some (JStr c)) \<longrightarrow>
          returned r = (False, FORMAT_ERROR) \<or>
          (\<exists>e. returned r = (False, TRANSLATE_ERROR @ str_exn wording e)))"
proof -
  have "raise_for_status response = None"
    using assms(5) by (auto simp: raise_for_status_def)
  note ret = returned_of_response [OF assms(2-4) this, of self wording source target_lang ctx session_id session_cache st]
  have ok: "\<forall>kvs kvs' c. json_body response = Inr (JObj kvs) \<and>
             map_of kvs (ascii ''message'') = Some (JObj kvs') \<and>
             map_of kvs' (ascii ''content'') = Some (JStr c) \<longrightarrow>
             returned r = (True, py_strip c)"
    using assms(1) ret by (auto simp: read_translation_content)
  have anomaly: "\<forall>kvs. json_body response = Inr (JObj kvs) \<and>
             (map_of kvs (ascii ''message'') = None \<or>
              (\<exists>kvs'. map_of kvs (ascii ''message'') = Some (JObj kvs') \<and>
                      map_of kvs' (ascii ''content'') = None)) \<longrightarrow>
             returned r = (False, FORMAT_ERROR)"
    using assms(1) ret by (auto simp: read_translation_no_message read_translation_no_content)
  have other: "(\<nexists>kvs kvs' c. json_body response = Inr (JObj kvs) \<and>
             map_of kvs (ascii ''message'') = Some (JObj kvs') \<and>
             map_of kvs' (ascii ''content'') = Some (JStr c)) \<longrightarrow>
          returned r = (False, FORMAT_ERROR) \<or>
          (\<exists>e. returned r = (False, TRANSLATE_ERROR @ str_exn wording e))"
  proof
    assume none: "\<nexists>kvs kvs' c. json_body response = Inr (JObj kvs) \<and>
             map_of kvs (ascii ''message'') = Some (JObj kvs') \<and>
             map_of kvs' (ascii ''content'') = Some (JStr c)"
    show "returned r = (False, FORMAT_ERROR) \<or>
          (\<exists>e. returned r = (False, TRANSLATE_ERROR @ str_exn wording e))"
    proof (cases "read_translation response")
      case (Inl e)
      with assms(1) ret show ?thesis by auto
    next
      case (Inr t)
      show ?thesis
      proof (cases t)
        case None
        with Inr assms(1) ret show ?thesis by simp
      next
        case (Some u)
        with Inr read_translation_Some none show ?thesis by blast
      qed
    qed
  qed
  from ok anomaly other show ?thesis by blast
qed

theorem translation_read_from_response_witness:
  "returned (translate_text default_client terse
      (endpoint 200 (Inr (chat_body (ascii '' Hallo ''))))
      (ascii ''Hello'') (ascii ''de'') None None None Map.empty empty_store) = (True, ascii ''Hallo'') \<and>
   returned (translate_text default_client terse
      (endpoint 200 (Inr (JObj [(ascii ''message'', JObj [])])))
      (ascii ''Hello'') (ascii ''de'') None None None Map.empty empty_store) = (False, FORMAT_ERROR)"
proof -
  have a: "returned (translate_text default_client terse
      (endpoint 200 (Inr (chat_body (ascii '' Hallo ''))))
      (ascii ''Hello'') (ascii ''de'') None None None Map.empty empty_store) = (True, py_strip (ascii '' Hallo ''))"
    using translation_read_from_response [OF refl, of Map.empty
        "endpoint 200 (Inr (chat_body (ascii '' Hallo '')))"
        "\<lparr>status_code = 200, json_body = Inr (chat_body (ascii '' Hallo ''))\<rparr>"
        default_client terse "ascii ''Hello''" "ascii ''de''" None None None empty_store]
    by (simp add: endpoint_def chat_body_def)
  have b: "returned (translate_text default_client terse
      (endpoint 200 (Inr (JObj [(ascii ''message'', JObj [])])))
      (ascii ''Hello'') (ascii ''de'') None None None Map.empty empty_store) = (False, FORMAT_ERROR)"
    using translation_read_from_response [OF refl, of Map.empty
        "endpoint 200 (Inr (JObj [(ascii ''message'', JObj [])]))"
        "\<lparr>status_code = 200, json_body = Inr (JObj [(ascii ''message'', JObj [])])\<rparr>"
        default_client terse "ascii ''Hello''" "ascii ''de''" None None None empty_store]
    by (simp add: endpoint_def)
  have s: "py_strip (ascii '' Hallo '') = ascii ''Hallo''"
    by (simp add: py_strip_def py_isspace_def ascii_def)
  from a b s show ?thesis by simp
qed

text \<open>
  C8: when the endpoint answers with a body that is an object whose \<open>models\<close> is a list
  of objects, each with a field \<open>name\<close> among whatever other fields the server sends,
  \<open>list_models\<close> returns success with the values \<open>n1, ..., nk\<close> of the \<open>name\<close> fields in the
  order of the list; the body \<open>{"models": [{"name": n1}, ..., {"name": nk}]}\<close> is the
  case without other fields. Whenever it does not return success it returns \<open>False\<close>
  with a list of one string, the failure label followed by the text of an exception; so
  it does when \<open>requests.get\<close> raises and when the status is between 400 and 599.
\<close>

theorem list_models_names:
  "((\<forall>q. get q = Inr response) \<and>
    (status_code response < 400 \<or> 600 \<le> status_code response) \<and>
    json_body response = Inr (JObj body) \<and>
    map_of body (ascii ''models'') = Some (JArr ms) \<and>
    list_all2 (\<lambda>m n. \<exists>fields. m = JObj fields \<and> map_of fields (ascii ''name'') = Some n) ms ns \<longrightarrow>
    list_models self wording get = (True, ns)) \<and>
   ((\<forall>q. get q = Inr response) \<and>
    (status_code response < 400 \<or> 600 \<le> status_code response) \<and>
    json_body response =
      Inr (JObj [(ascii ''models'', JArr (map (\<lambda>n. JObj [(ascii ''name'', n)]) ns))]) \<longrightarrow>
    list_models self wording get = (True, ns)) \<and>
   (fst (list_models self wording get) \<or>
    (\<exists>e. list_models self wording get = (False, [JStr (LIST_ERROR @ str_exn wording e)]))) \<and>
   ((\<forall>q. get q = Inl e) \<longrightarrow>
    list_models self wording get = (False, [JStr (LIST_ERROR @ str_exn wording e)])) \<and>
   ((\<forall>q. get q = Inr response) \<and> 400 \<le> status_code response \<and> status_code response < 600 \<longrightarrow>
    list_models self wording get =
      (False, [JStr (LIST_ERROR @ str_exn wording (HTTPError (status_code response)))]))"
proof -
  have names: "(\<forall>q. get q = Inr response) \<and>
    (status_code response < 400 \<or> 600 \<le> status_code response) \<and>
    json_body response = Inr (JObj body) \<and>
    map_of body (ascii ''models'') = Some (JArr ms) \<and>
    list_all2 (\<lambda>m n. \<exists>fields. m = JObj fields \<and> map_of fields (ascii ''name'') = Some n) ms ns \<longrightarrow>
    list_models self wording get = (True, ns)"
    by (auto simp: list_models_def raise_for_status_def model_names_fields)
  have literal: "(\<forall>q. get q = Inr response) \<and>
    (status_code response < 400 \<or> 600 \<le> status_code response) \<and>
    json_body response =
      Inr (JObj [(ascii ''models'', JArr (map (\<lambda>n. JObj [(ascii ''name'', n)]) ns))]) \<longrightarrow>
    list_models self wording get = (True, ns)"
    by (auto simp: list_models_def raise_for_status_def model_names_named)
  have failure: "fst (list_models self wording get) \<or>
    (\<exists>e. list_models self wording get = (False, [JStr (LIST_ERROR @ str_exn wording e)]))"
    by (auto simp: list_models_def Let_def split: sum.splits option.splits)
  have raised: "(\<forall>q. get q = Inl e) \<longrightarrow>
    list_models self wording get = (False, [JStr (LIST_ERROR @ str_exn wording e)])"
    by (simp add: list_models_def)
  have status: "(\<forall>q. get q = Inr response) \<and> 400 \<le> status_code response \<and> status_code response < 600 \<longrightarrow>
    list_models self wording get =
      (False, [JStr (LIST_ERROR @ str_exn wording (HTTPError (status_code response)))])"
    by (simp add: list_models_def raise_for_status_def)
  from names literal failure raised status show ?thesis by blast
qed

theorem list_models_names_witness:
  "list_models default_client terse
     (endpoint 200 (Inr (JObj
        [(ascii ''models'',
          JArr [JObj [(ascii ''name'', JStr (ascii ''a'')), (ascii ''size'', JNum 1)],
                JObj [(ascii ''model'', JStr (ascii ''b:latest'')), (ascii ''name'', JStr (ascii ''b''))]]),
         (ascii ''count'', JNum 2)])))
     = (True, [JStr (ascii ''a''), JStr (ascii ''b'')]) \<and>
   list_models default_client terse
     (endpoint 200 (Inr (JObj [(ascii ''models'',
        JArr [JObj [(ascii ''name'', JStr (ascii ''a''))], JObj [(ascii ''name'', JStr (ascii ''b''))]])])))
     = (True, [JStr (ascii ''a''), JStr (ascii ''b'')]) \<and>
   list_models default_client terse (endpoint 503 (Inr JNull))
     = (False, [JStr (LIST_ERROR @ ascii ''error'')])"
proof -
  have fields: "list_all2
      (\<lambda>m n. \<exists>fields. m = JObj fields \<and> map_of fields (ascii ''name'') = Some n)
      [JObj [(ascii ''name'', JStr (ascii ''a'')), (ascii ''size'', JNum 1)],
       JObj [(ascii ''model'', JStr (ascii ''b:latest'')), (ascii ''name'', JStr (ascii ''b''))]]
      [JStr (ascii ''a''), JStr (ascii ''b'')]"
    by (simp add: ascii_def)
  have g: "list_models default_client terse
     (endpoint 200 (Inr (JObj
        [(ascii ''models'',
          JArr [JObj [(ascii ''name'', JStr (ascii ''a'')), (ascii ''size'', JNum 1)],
                JObj [(ascii ''model'', JStr (ascii ''b:latest'')), (ascii ''name'', JStr (ascii ''b''))]]),
         (ascii ''count'', JNum 2)])))
     = (True, [JStr (ascii ''a''), JStr (ascii ''b'')])"
    using fields list_models_names [of
        "endpoint 200 (Inr (JObj
          [(ascii ''models'',
            JArr [JObj [(ascii ''name'', JStr (ascii ''a'')), (ascii ''size'', JNum 1)],
                  JObj [(ascii ''model'', JStr (ascii ''b:latest'')), (ascii ''name'', JStr (ascii ''b''))]]),
           (ascii ''count'', JNum 2)]))"
        "\<lparr>status_code = 200, json_body = Inr (JObj
          [(ascii ''models'',
            JArr [JObj [(ascii ''name'', JStr (ascii ''a'')), (ascii ''size'', JNum 1)],
                  JObj [(ascii ''model'', JStr (ascii ''b:latest'')), (ascii ''name'', JStr (ascii ''b''))]]),
           (ascii ''count'', JNum 2)])\<rparr>"
        "[(ascii ''models'',
            JArr [JObj [(ascii ''name'', JStr (ascii ''a'')), (ascii ''size'', JNum 1)],
                  JObj [(ascii ''model'', JStr (ascii ''b:latest'')), (ascii ''name'', JStr (ascii ''b''))]]),
           (ascii ''count'', JNum 2)]"
        "[JObj [(ascii ''name'', JStr (ascii ''a'')), (ascii ''size'', JNum 1)],
          JObj [(ascii ''model'', JStr (ascii ''b:latest'')), (ascii ''name'', JStr (ascii ''b''))]]"
        "[JStr (ascii ''a''), JStr (ascii ''b'')]" default_client terse]
    by (simp add: endpoint_def)
  have a: "list_models default_client terse
     (endpoint 200 (Inr (JObj [(ascii ''models'',
        JArr [JObj [(ascii ''name'', JStr (ascii ''a''))], JObj [(ascii ''name'', JStr (ascii ''b''))]])])))
     = (True, [JStr (ascii ''a''), JStr (ascii ''b'')])"
    using list_models_names [of
        "endpoint 200 (Inr (JObj [(ascii ''models'',
           JArr [JObj [(ascii ''name'', JStr (ascii ''a''))], JObj [(ascii ''name'', JStr (ascii ''b''))]])]))"
        "\<lparr>status_code = 200, json_body = Inr (JObj [(ascii ''models'',
           JArr [JObj [(ascii ''name'', JStr (ascii ''a''))], JObj [(ascii ''name'', JStr (ascii ''b''))]])])\<rparr>"
        "[]" "[]" "[JStr (ascii ''a''), JStr (ascii ''b'')]" default_client terse]
    by (simp add: endpoint_def)
  have b: "list_models default_client terse (endpoint 503 (Inr JNull))
     = (False, [JStr (LIST_ERROR @ ascii ''error'')])"
    using list_models_names [of "endpoint 503 (Inr JNull)"
        "\<lparr>status_code = 503, json_body = Inr JNull\<rparr>" "[]" "[]" "[]" default_client terse]
    by (simp add: endpoint_def terse_def)
  from g a b show ?thesis by simp
qed

text \<open>
  C3, as stated, fails for a session that the cache already holds: \<open>__get_session\<close>
  appends the user message to the stored list before the request is sent, so after the
  status 500 the stored sequence is one message longer than before.
\<close>

theorem failed_request_counterexample:
  "stored (Some [ascii ''s'' \<mapsto> 0]) one_reply_store (ascii ''s'')
     = Some [\<lparr>role = ascii ''assistant'', content = ascii ''Hallo''\<rparr>] \<and>
   returned (translate_text default_client terse (endpoint 500 (Inr JNull))
      (ascii ''Bye'') (ascii ''de'') None (Some (ascii ''s'')) (Some [ascii ''s'' \<mapsto> 0]) Map.empty
      one_reply_store) = (False, TRANSLATE_ERROR @ REQUEST_ERROR @ ascii ''error'') \<and>
   stored
     (cache_after (translate_text default_client terse (endpoint 500 (Inr JNull))
        (ascii ''Bye'') (ascii ''de'') None (Some (ascii ''s'')) (Some [ascii ''s'' \<mapsto> 0]) Map.empty
        one_reply_store))
     (store_after (translate_text default_client terse (endpoint 500 (Inr JNull))
        (ascii ''Bye'') (ascii ''de'') None (Some (ascii ''s'')) (Some [ascii ''s'' \<mapsto> 0]) Map.empty
        one_reply_store))
     (ascii ''s'')
     = Some [\<lparr>role = ascii ''assistant'', content = ascii ''Hallo''\<rparr>,
             \<lparr>role = ascii ''user'', content = TEXT_LABEL @ [10] @ ascii ''Bye''\<rparr>]"
  by (simp add: call_defs run_defs session_enabled_def user_message_def) (simp add: ascii_def)


text \<open>
  C3, amended. When \<open>requests.post\<close> raises a \<open>RequestException\<close> or the status is between
  400 and 599, the call returns \<open>False\<close> with the two labels and the text of that failure;
  the dict is the same afterwards; without a session no list that existed has changed;
  with a session, the entries that refer to the session's list hold the old sequence
  followed by the system message of the session (when the old sequence was empty) and
  the user message of this call, and every other entry holds what it held. No assistant
  message is appended, and a session that has no entry gets none.
\<close>

theorem failed_request_keeps_user_message:
  assumes "r = translate_text self wording post source target_lang ctx session_id session_cache kwargs st"
    and "ascii ''self'' \<notin> dom kwargs" and "ascii ''messages'' \<notin> dom kwargs"
    and "(is_RequestException e \<and> (\<forall>q. post q = Inl e)) \<or>
         (\<exists>response. (\<forall>q. post q = Inr response) \<and> 400 \<le> status_code response \<and>
            status_code response < 600 \<and> e = HTTPError (status_code response))"
  shows "returned r = (False, TRANSLATE_ERROR @ REQUEST_ERROR @ str_exn wording e) \<and>
         cache_after r = session_cache \<and>
         (session_enabled session_id session_cache = None \<longrightarrow>
            (\<forall>a<fresh st. lists (store_after r) a = lists st a)) \<and>
         (\<forall>sid c. session_enabled session_id session_cache = Some (sid, c) \<and> allocated c st \<longrightarrow>
            (\<forall>k. stored (cache_after r) (store_after r) k =
               (if c k = c sid
                then map_option
                       (\<lambda>old. old @
                          (if old = [] then [\<lparr>role = ascii ''system'', content = SESSION_SYSTEM_PROMPT\<rparr>]
                           else []) @
                          [\<lparr>role = ascii ''user'', content = user_message source ctx\<rparr>])
                       (stored session_cache st k)
                else stored session_cache st k)))"
proof -
  have ret: "returned r = (False, TRANSLATE_ERROR @ REQUEST_ERROR @ str_exn wording e)"
    using assms(1) returned_transport_failure [OF assms(2-4)] by simp
  then have failed: "\<not> fst (returned r)" by simp
  have c: "cache_after r = session_cache"
    using failed state_after_failure(1) unfolding assms(1) by blast
  have s: "store_after r = snd (prepare_messages source target_lang ctx session_id session_cache st)"
    using failed state_after_failure(2) unfolding assms(1) by blast
  have plain: "session_enabled session_id session_cache = None \<longrightarrow>
            (\<forall>a<fresh st. lists (store_after r) a = lists st a)"
    by (simp add: s prepare_messages_plain)
  have session: "\<forall>sid c. session_enabled session_id session_cache = Some (sid, c) \<and> allocated c st \<longrightarrow>
            (\<forall>k. stored (cache_after r) (store_after r) k =
               (if c k = c sid
                then map_option
                       (\<lambda>old. old @
                          (if old = [] then [\<lparr>role = ascii ''system'', content = SESSION_SYSTEM_PROMPT\<rparr>]
                           else []) @
                          [\<lparr>role = ascii ''user'', content = user_message source ctx\<rparr>])
                       (stored session_cache st k)
                else stored session_cache st k))"
  proof (intro allI impI, elim conjE)
    fix sid c k
    assume on: "session_enabled session_id session_cache = Some (sid, c)" and al: "allocated c st"
    from on have sc: "session_cache = Some c" by (simp add: session_enabled_Some)
    from on have on': "session_enabled session_id (Some c) = Some (sid, c)" by (simp add: sc)
    show "stored (cache_after r) (store_after r) k =
               (if c k = c sid
                then map_option
                       (\<lambda>old. old @
                          (if old = [] then [\<lparr>role = ascii ''system'', content = SESSION_SYSTEM_PROMPT\<rparr>]
                           else []) @
                          [\<lparr>role = ascii ''user'', content = user_message source ctx\<rparr>])
                       (stored session_cache st k)
                else stored session_cache st k)"
    proof (cases "c sid")
      case None
      show ?thesis
      proof (cases "c k")
        case None
        with \<open>c sid = None\<close> show ?thesis by (simp add: c sc stored_def)
      next
        case (Some b)
        with al have "b < fresh st" by (auto simp: allocated_def)
        with Some \<open>c sid = None\<close> show ?thesis
          by (simp add: c s sc stored_def prepare_messages_new_session [OF on' None])
      qed
    next
      case (Some a)
      with al have a: "a < fresh st" by (auto simp: allocated_def)
      show ?thesis
      proof (cases "c k")
        case None
        with Some show ?thesis by (simp add: c sc stored_def)
      next
        case (Some b)
        with al have "b < fresh st" by (auto simp: allocated_def)
        with Some \<open>c sid = Some a\<close> a show ?thesis
          by (simp add: c s sc stored_def prepare_messages_old_session [OF on' \<open>c sid = Some a\<close> a])
      qed
    qed
  qed
  from ret c plain session show ?thesis by blast
qed

theorem failed_request_keeps_user_message_witness:
  "returned (translate_text default_client terse (endpoint 500 (Inr JNull))
      (ascii ''Bye'') (ascii ''de'') None (Some (ascii ''s'')) (Some [ascii ''s'' \<mapsto> 0]) Map.empty
      one_reply_store) = (False, TRANSLATE_ERROR @ REQUEST_ERROR @ ascii ''error'') \<and>
   cache_after (translate_text default_client terse (endpoint 500 (Inr JNull))
      (ascii ''Bye'') (ascii ''de'') None (Some (ascii ''s'')) (Some [ascii ''s'' \<mapsto> 0]) Map.empty
      one_reply_store) = Some [ascii ''s'' \<mapsto> 0] \<and>
   stored
     (cache_after (translate_text default_client terse (endpoint 500 (Inr JNull))
        (ascii ''Bye'') (ascii ''de'') None (Some (ascii ''s'')) (Some [ascii ''s'' \<mapsto> 0]) Map.empty
        one_reply_store))
     (store_after (translate_text default_client terse (endpoint 500 (Inr JNull))
        (ascii ''Bye'') (ascii ''de'') None (Some (ascii ''s'')) (Some [ascii ''s'' \<mapsto> 0]) Map.empty
        one_reply_store))
     (ascii ''s'')
     = Some [\<lparr>role = ascii ''assistant'', content = ascii ''Hallo''\<rparr>,
             \<lparr>role = ascii ''user'', content = user_message (ascii ''Bye'') None\<rparr>]"
proof -
  let ?r = "translate_text default_client terse (endpoint 500 (Inr JNull))
      (ascii ''Bye'') (ascii ''de'') None (Some (ascii ''s'')) (Some [ascii ''s'' \<mapsto> 0]) Map.empty
      one_reply_store"
  have bound: "ascii ''self'' \<notin> dom (Map.empty :: pystr \<rightharpoonup> json)"
    "ascii ''messages'' \<notin> dom (Map.empty :: pystr \<rightharpoonup> json)"
    by simp_all
  have fails: "(is_RequestException (HTTPError 500) \<and>
                 (\<forall>q::post_request. endpoint 500 (Inr JNull) q = Inl (HTTPError 500))) \<or>
         (\<exists>response. (\<forall>q::post_request. endpoint 500 (Inr JNull) q = Inr response) \<and>
            400 \<le> status_code response \<and> status_code response < 600 \<and>
            HTTPError 500 = HTTPError (status_code response))"
    by (simp add: endpoint_def)
  note t = failed_request_keeps_user_message [OF refl bound fails, of default_client terse
      "ascii ''Bye''" "ascii ''de''" None "Some (ascii ''s'')" "Some [ascii ''s'' \<mapsto> 0]" one_reply_store]
  have on: "session_enabled (Some (ascii ''s'')) (Some [ascii ''s'' \<mapsto> 0])
              = Some (ascii ''s'', [ascii ''s'' \<mapsto> 0])"
    by (simp add: ascii_def)
  have al: "allocated [ascii ''s'' \<mapsto> 0] one_reply_store"
    by (simp add: allocated_def one_reply_store_def)
  have a: "returned ?r = (False, TRANSLATE_ERROR @ REQUEST_ERROR @ ascii ''error'')"
    using t by (simp add: terse_def)
  have b: "cache_after ?r = Some [ascii ''s'' \<mapsto> 0]"
    using t by simp
  have before: "stored (Some [ascii ''s'' \<mapsto> 0]) one_reply_store (ascii ''s'')
                  = Some [\<lparr>role = ascii ''assistant'', content = ascii ''Hallo''\<rparr>]"
    by (simp add: stored_def one_reply_store_def)
  from t on al have "\<forall>k. stored (cache_after ?r) (store_after ?r) k =
               (if [ascii ''s'' \<mapsto> 0] k = [ascii ''s'' \<mapsto> (0::nat)] (ascii ''s'')
                then map_option
                       (\<lambda>old. old @
                          (if old = [] then [\<lparr>role = ascii ''system'', content = SESSION_SYSTEM_PROMPT\<rparr>]
                           else []) @
                          [\<lparr>role = ascii ''user'', content = user_message (ascii ''Bye'') None\<rparr>])
                       (stored (Some [ascii ''s'' \<mapsto> 0]) one_reply_store k)
                else stored (Some [ascii ''s'' \<mapsto> 0]) one_reply_store k)"
    by blast
  then have "stored (cache_after ?r) (store_after ?r) (ascii ''s'') =
               map_option
                 (\<lambda>old. old @
                    (if old = [] then [\<lparr>role = ascii ''system'', content = SESSION_SYSTEM_PROMPT\<rparr>]
                     else []) @
                    [\<lparr>role = ascii ''user'', content = user_message (ascii ''Bye'') None\<rparr>])
                 (stored (Some [ascii ''s'' \<mapsto> 0]) one_reply_store (ascii ''s''))"
    by simp
  then have c: "stored (cache_after ?r) (store_after ?r) (ascii ''s'')
     = Some [\<lparr>role = ascii ''assistant'', content = ascii ''Hallo''\<rparr>,
             \<lparr>role = ascii ''user'', content = user_message (ascii ''Bye'') None\<rparr>]"
    by (simp add: before)
  from a b c show ?thesis by blast
qed

text \<open>
  C1 asks for the sequence [system, user1, assistant1, user2] before the second reply is
  saved and for five messages after. On the code, two successful calls on a new session
  \<open>s\<close> with an empty cache give a second request that carries two messages,
  [assistant1, user2], and a stored sequence of three, [assistant1, user2, assistant2]:
  the list that \<open>__get_session\<close> creates for a new session is never put into the cache,
  so the system message and the first user message are lost.
\<close>

theorem second_call_of_new_session:
  "map (\<lambda>q. pl_messages (post_json q))
     (posted (translate_text default_client terse (endpoint 200 (Inr (chat_body (ascii ''Und morgen?''))))
        (ascii ''And tomorrow?'') (ascii ''de'') None (Some (ascii ''s''))
        (cache_after (translate_text default_client terse (endpoint 200 (Inr (chat_body (ascii ''Hallo''))))
           (ascii ''Hello'') (ascii ''de'') None (Some (ascii ''s'')) (Some Map.empty) Map.empty
           empty_store))
        Map.empty
        (store_after (translate_text default_client terse (endpoint 200 (Inr (chat_body (ascii ''Hallo''))))
           (ascii ''Hello'') (ascii ''de'') None (Some (ascii ''s'')) (Some Map.empty) Map.empty
           empty_store))))
     = [[\<lparr>role = ascii ''assistant'', content = ascii ''Hallo''\<rparr>,
         \<lparr>role = ascii ''user'', content = user_message (ascii ''And tomorrow?'') None\<rparr>]] \<and>
   stored
     (cache_after (translate_text default_client terse (endpoint 200 (Inr (chat_body (ascii ''Und morgen?''))))
        (ascii ''And tomorrow?'') (ascii ''de'') None (Some (ascii ''s''))
        (cache_after (translate_text default_client terse (endpoint 200 (Inr (chat_body (ascii ''Hallo''))))
           (ascii ''Hello'') (ascii ''de'') None (Some (ascii ''s'')) (Some Map.empty) Map.empty
           empty_store))
        Map.empty
        (store_after (translate_text default_client terse (endpoint 200 (Inr (chat_body (ascii ''Hallo''))))
           (ascii ''Hello'') (ascii ''de'') None (Some (ascii ''s'')) (Some Map.empty) Map.empty
           empty_store))))
     (store_after (translate_text default_client terse (endpoint 200 (Inr (chat_body (ascii ''Und morgen?''))))
        (ascii ''And tomorrow?'') (ascii ''de'') None (Some (ascii ''s''))
        (cache_after (translate_text default_client terse (endpoint 200 (Inr (chat_body (ascii ''Hallo''))))
           (ascii ''Hello'') (ascii ''de'') None (Some (ascii ''s'')) (Some Map.empty) Map.empty
           empty_store))
        Map.empty
        (store_after (translate_text default_client terse (endpoint 200 (Inr (chat_body (ascii ''Hallo''))))
           (ascii ''Hello'') (ascii ''de'') None (Some (ascii ''s'')) (Some Map.empty) Map.empty
           empty_store))))
     (ascii ''s'')
     = Some [\<lparr>role = ascii ''assistant'', content = ascii ''Hallo''\<rparr>,
             \<lparr>role = ascii ''user'', content = user_message (ascii ''And tomorrow?'') None\<rparr>,
             \<lparr>role = ascii ''assistant'', content = ascii ''Und morgen?''\<rparr>]"
proof -
  let ?r1 = "translate_text default_client terse (endpoint 200 (Inr (chat_body (ascii ''Hallo''))))
           (ascii ''Hello'') (ascii ''de'') None (Some (ascii ''s'')) (Some Map.empty) Map.empty
           empty_store"
  have c1: "cache_after ?r1 = Some [ascii ''s'' \<mapsto> Suc (Suc 0)]"
    by (simp add: call_defs run_defs session_enabled_def user_message_def)
       (simp add: ascii_def)
  have s1: "store_after ?r1 =
              \<lparr>lists = (\<lambda>a. [])
                 (0 := [\<lparr>role = ascii ''system'', content = system_prompt (ascii ''de'')\<rparr>],
                  Suc 0 := [\<lparr>role = ascii ''system'', content = SESSION_SYSTEM_PROMPT\<rparr>,
                        \<lparr>role = ascii ''user'', content = user_message (ascii ''Hello'') None\<rparr>],
                  Suc (Suc 0) := [\<lparr>role = ascii ''assistant'', content = ascii ''Hallo''\<rparr>]),
               fresh = Suc (Suc (Suc 0))\<rparr>"
    by (simp add: call_defs run_defs session_enabled_def)
       (simp add: ascii_def py_strip_def py_isspace_def)
  show ?thesis
    unfolding c1 s1
    by (simp add: call_defs run_defs session_enabled_def)
       (simp add: ascii_def py_strip_def py_isspace_def)
qed

text \<open>
  C2 asks for exactly one system message in the stored sequence after the first
  successful call on a new session. On the code, the sequence stored after that call is
  the assistant message alone: it holds no system message, and no later call adds one,
  since the stored list is not empty any more.
\<close>

theorem first_call_stores_no_system_message:
  "stored
     (cache_after (translate_text default_client terse (endpoint 200 (Inr (chat_body (ascii ''Hallo''))))
        (ascii ''Hello'') (ascii ''de'') None (Some (ascii ''s'')) (Some Map.empty) Map.empty
        empty_store))
     (store_after (translate_text default_client terse (endpoint 200 (Inr (chat_body (ascii ''Hallo''))))
        (ascii ''Hello'') (ascii ''de'') None (Some (ascii ''s'')) (Some Map.empty) Map.empty
        empty_store))
     (ascii ''s'')
     = Some [\<lparr>role = ascii ''assistant'', content = ascii ''Hallo''\<rparr>]"
  by (simp add: call_defs run_defs session_enabled_def user_message_def)
     (simp add: ascii_def py_strip_def py_isspace_def)


text \<open>
  C4 asks that the first message of a new session be the system prompt built for the
  call, which names the target language. On the code, a call with target language
  \<open>en\<close> on a new session sends, as first message, the fixed text of line 77, which is
  not the prompt built at lines 118-122 for \<open>en\<close>.
\<close>

theorem new_session_system_prompt_is_fixed:
  "map (\<lambda>q. pl_messages (post_json q))
     (posted (translate_text default_client terse (endpoint 200 (Inr (chat_body (ascii ''Hello''))))
        (ascii ''Bonjour'') (ascii ''en'') None (Some (ascii ''s'')) (Some Map.empty) Map.empty
        empty_store))
     = [[\<lparr>role = ascii ''system'', content = SESSION_SYSTEM_PROMPT\<rparr>,
         \<lparr>role = ascii ''user'', content = user_message (ascii ''Bonjour'') None\<rparr>]] \<and>
   SESSION_SYSTEM_PROMPT \<noteq> system_prompt (ascii ''en'')"
  by (simp add: call_defs run_defs session_enabled_def)
     (simp add: ascii_def SESSION_SYSTEM_PROMPT_def system_prompt_def SYSTEM_PROMPT_HEAD_def)

end
